theory Spec2Isabelle
  imports Main
begin

section \<open>The link feature of the editor (packages/ckeditor5-link/src/link.js)\<close>

text \<open>
  The feature owns one balloon panel. Its handlers react to the toolbar button, the
  CTRL+L keystroke, clicks and renders of the editing view, the three actions of the
  panel's form, and key and mouse events of the DOM document. The handlers are embedded
  as functions on an explicit state; the collaborators they call (the view tree, the
  selection, the emitter, the panel view, the command layer) are not part of link.js
  and are modelled next to them, each marked as such.
\<close>

subsection \<open>View tree, positions, selection\<close>

datatype nodeKind = LinkElement | ContainerElement | TextNode

text \<open>
  A view node: \<open>nodeRef\<close> is the identity of the JavaScript object (what \<open>===\<close> and
  \<open>!==\<close> compare), \<open>kind\<close> is its class, \<open>parentNode\<close> its parent in the tree.
\<close>

datatype vnode = VNode (nodeRef: nat) (kind: nodeKind) (parentNode: "vnode option")

datatype position = Position (parent: vnode) (offset: nat)

datatype vrange = VRange (rangeStart: position) (rangeEnd: position)

datatype selection = Selection (ranges: "vrange list")

text \<open>
  Modelled from the spec: \<open>getAncestors\<close> of engine/view/node.js is missing. The
  spec speaks of "an ordered chain of ancestor nodes" that the locator walks
  "outward ... up to the document root": the chain of the node's ancestors, nearest
  first, the node itself excluded.
\<close>

fun getAncestors :: "vnode \<Rightarrow> vnode list" where
  "getAncestors (VNode r k None) = []"
| "getAncestors (VNode r k (Some p)) = p # getAncestors p"

text \<open>
  Modelled from the spec: the selection of engine/view/selection.js is missing. "The
  editor's current Document Position range; may be collapsed (caret, zero-width) or
  extended". A selection holds its ranges; with no range it has neither a first range
  nor a first position (the accessors return null), and it is collapsed when it is one
  zero-width range.
\<close>

definition getFirstRange :: "selection \<Rightarrow> vrange option" where
  "getFirstRange sel = (case ranges sel of [] \<Rightarrow> None | r # _ \<Rightarrow> Some r)"

definition getFirstPosition :: "selection \<Rightarrow> position option" where
  "getFirstPosition sel = map_option rangeStart (getFirstRange sel)"

definition isCollapsed :: "selection \<Rightarrow> bool" where
  "isCollapsed sel = (case ranges sel of [r] \<Rightarrow> rangeStart r = rangeEnd r | _ \<Rightarrow> False)"

subsection \<open>Errors\<close>

text \<open>
  \<open>TypeError\<close>: a property is read from null or undefined. \<open>CommandError\<close>: the
  command layer threw out of \<open>editor.execute\<close>.
\<close>

datatype error = TypeError | CommandError

subsection \<open>The locator\<close>

definition instanceofLinkElement :: "vnode \<Rightarrow> bool" where
  "instanceofLinkElement ancestor = (kind ancestor = LinkElement)"

text \<open>
  \<^verbatim>\<open>function getPositionParentLink( position ) {
    return position.parent.getAncestors().find( ( ancestor ) => ancestor instanceof LinkElement );
  }\<close>
  The argument is what \<open>getFirstPosition()\<close> returned, so it may be null (\<open>None\<close>);
  reading \<open>.parent\<close> of null throws. \<open>Array.prototype.find\<close> returns the first match
  or undefined (\<open>None\<close>).
\<close>

definition getPositionParentLink :: "position option \<Rightarrow> error + vnode option" where
  "getPositionParentLink position =
     (case position of
        None \<Rightarrow> Inl TypeError
      | Some p \<Rightarrow> Inr (find instanceofLinkElement (getAncestors (parent p))))"

text \<open>\<open>a !== b\<close> on two values that are a view element or undefined.\<close>

definition notSameObject :: "vnode option \<Rightarrow> vnode option \<Rightarrow> bool" where
  "notSameObject a b = (map_option nodeRef a \<noteq> map_option nodeRef b)"

subsection \<open>State of the feature and of its panel\<close>

datatype target = DomElement vnode | DomRange vrange

datatype command = LinkCommand string | UnlinkCommand

text \<open>The calls made on the collaborators, in the order they are made.\<close>

datatype call = AttachTo target | Hide | Focus | SelectUrlInput | Execute command

text \<open>
  \<open>isVisible\<close> is \<open>balloonPanel.view.model.isVisible\<close>; \<open>keydownListeners\<close> and
  \<open>mouseupListeners\<close> count the callbacks the panel view has on the DOM document for
  each event; \<open>renderListeners\<close> holds, in the order they were added, the callbacks the
  feature has on the view document for \<open>render\<close>, each given by the \<open>parentLink\<close> its
  closure captured; \<open>attachedTo\<close> is the target of the last \<open>attachTo\<close>.
\<close>

record state =
  isVisible :: bool
  keydownListeners :: nat
  mouseupListeners :: nat
  renderListeners :: "vnode list"
  attachedTo :: "target option"
  calls :: "call list"

definition initState :: state where
  "initState = \<lparr>isVisible = False, keydownListeners = 0, mouseupListeners = 0,
     renderListeners = [], attachedTo = None, calls = []\<rparr>"

text \<open>
  The handler of \<open>change:isVisible\<close> (link.js, in \<open>_createBalloonPanel\<close>): on show it
  adds one keydown and one mouseup callback; on hide
  \<open>balloonPanel.view.stopListening( document )\<close> drops every callback of the panel view on
  the DOM document and \<open>this.stopListening( viewDocument )\<close> every callback the feature
  added with \<open>listenTo\<close> on the view document, which are the render callbacks (the click
  callback was added with \<open>viewDocument.on\<close> and stays).
\<close>

definition onChangeIsVisible :: "bool \<Rightarrow> state \<Rightarrow> state" where
  "onChangeIsVisible value s =
     (if value
      then s\<lparr>keydownListeners := Suc (keydownListeners s),
             mouseupListeners := Suc (mouseupListeners s)\<rparr>
      else s\<lparr>keydownListeners := 0, mouseupListeners := 0, renderListeners := []\<rparr>)"

text \<open>
  Modelled from the spec: the panel view (ui/balloonpanel) and its observable model are
  missing. The view-positioning collaborator offers \<open>attachTo\<close> and \<open>hide\<close> and "reports
  its own visibility-changed notifications": \<open>attachTo\<close> positions the panel and makes it
  visible, \<open>hide\<close> makes it invisible, and the notification is fired when the visibility
  changed, not when it is set to the value it has.
\<close>

definition setIsVisible :: "bool \<Rightarrow> state \<Rightarrow> state" where
  "setIsVisible value s =
     (if isVisible s = value then s else onChangeIsVisible value (s\<lparr>isVisible := value\<rparr>))"

definition attachTo :: "target \<Rightarrow> state \<Rightarrow> state" where
  "attachTo t s = setIsVisible True (s\<lparr>attachedTo := Some t, calls := calls s @ [AttachTo t]\<rparr>)"

definition hide :: "state \<Rightarrow> state" where
  "hide s = setIsVisible False (s\<lparr>calls := calls s @ [Hide]\<rparr>)"

definition focus :: "state \<Rightarrow> state" where
  "focus s = s\<lparr>calls := calls s @ [Focus]\<rparr>"

definition selectUrlInput :: "state \<Rightarrow> state" where
  "selectUrlInput s = s\<lparr>calls := calls s @ [SelectUrlInput]\<rparr>"

text \<open>
  Modelled from the spec: the command layer (\<open>editor.execute\<close>) is missing. The
  mutation engine is "synchronous or fire-and-forget; this core does not inspect return
  values", and its invocation may fail. An invocation returns, having applied the
  change or not (\<open>Returned applied\<close>), or throws (\<open>Threw\<close>).
  An exception is caught nowhere in link.js, so it leaves the handler that called. What
  the command does to the document reaches the feature as the events that follow
  ("handlers do not yield mid-transition").
\<close>

datatype outcome = Returned bool | Threw

definition execute :: "command \<Rightarrow> outcome \<Rightarrow> state \<Rightarrow> error + state" where
  "execute c out s =
     (case out of
        Threw \<Rightarrow> Inl CommandError
      | Returned applied \<Rightarrow> Inr (s\<lparr>calls := calls s @ [Execute c]\<rparr>))"

subsection \<open>The private methods\<close>

text \<open>
  \<open>_attachPanelToElement( parentLink )\<close>:
  \<open>targetLink = parentLink || getPositionParentLink( selection.getFirstPosition() )\<close>;
  with a target link the panel is attached to its DOM element, otherwise to the DOM
  range of \<open>selection.getFirstRange()\<close>. The second argument of \<open>attachTo\<close>, the DOM
  element of the editable, only limits the geometry and is left out. A first range is
  missing only when the first position is, and then the locator has thrown already; the
  conversion of a null range is a \<open>TypeError\<close> all the same.
\<close>

definition attachPanelToElement :: "vnode option \<Rightarrow> selection \<Rightarrow> state \<Rightarrow> error + state" where
  "attachPanelToElement parentLink sel s =
     (case (case parentLink of
              Some l \<Rightarrow> Inr (Some l)
            | None \<Rightarrow> getPositionParentLink (getFirstPosition sel)) of
        Inl e \<Rightarrow> Inl e
      | Inr (Some targetLink) \<Rightarrow> Inr (attachTo (DomElement targetLink) s)
      | Inr None \<Rightarrow>
          (case getFirstRange sel of
             None \<Rightarrow> Inl TypeError
           | Some r \<Rightarrow> Inr (attachTo (DomRange r) s)))"

text \<open>\<open>_hidePanel( options = {} )\<close>, the argument being \<open>options.focusDocument\<close>.\<close>

definition hidePanel :: "bool \<Rightarrow> state \<Rightarrow> state" where
  "hidePanel focusDocument s = (let s' = hide s in if focusDocument then focus s' else s')"

text \<open>\<open>_closePanelOnClick( evt, domEvt )\<close>, the argument being \<open>domEvt.keyCode\<close>.\<close>

definition closePanelOnClick :: "nat \<Rightarrow> state \<Rightarrow> state" where
  "closePanelOnClick keyCode s = (if keyCode = 27 then hidePanel True s else s)"

subsection \<open>The listeners\<close>

text \<open>
  The mouseup callback; the arguments are
  \<open>balloonPanel.view.element.contains( domEvt.target )\<close> and
  \<open>editor.ui.view.element.contains( domEvt.target )\<close>.
\<close>

definition mouseupListener :: "bool \<Rightarrow> bool \<Rightarrow> state \<Rightarrow> state" where
  "mouseupListener inPanel inEditor s =
     (if inPanel then s
      else (let s' = hide s in if inEditor then focus s' else s'))"

text \<open>
  The render callback whose closure captured \<open>parentLink\<close>. In
  \<open>!viewSelection.isCollapsed || parentLink !== getPositionParentLink( position )\<close> the
  locator is called only when the selection is collapsed.
\<close>

definition renderListener :: "vnode \<Rightarrow> selection \<Rightarrow> state \<Rightarrow> error + state" where
  "renderListener parentLink viewSelection s =
     (case getFirstPosition viewSelection of
        None \<Rightarrow> Inr s
      | Some position \<Rightarrow>
          if \<not> isCollapsed viewSelection then Inr (hidePanel False s)
          else (case getPositionParentLink (Some position) of
                  Inl e \<Rightarrow> Inl e
                | Inr found \<Rightarrow>
                    if notSameObject (Some parentLink) found
                    then Inr (hidePanel False s)
                    else attachPanelToElement (Some parentLink) viewSelection s))"

text \<open>The click callback on the view document.\<close>

definition clickListener :: "selection \<Rightarrow> state \<Rightarrow> error + state" where
  "clickListener viewSelection s =
     (case getPositionParentLink (getFirstPosition viewSelection) of
        Inl e \<Rightarrow> Inl e
      | Inr parentLink \<Rightarrow>
          (case parentLink of
             Some l \<Rightarrow>
               if isCollapsed viewSelection
               then (case attachPanelToElement None viewSelection s of
                       Inl e \<Rightarrow> Inl e
                     | Inr s' \<Rightarrow> Inr (s'\<lparr>renderListeners := renderListeners s' @ [l]\<rparr>))
               else Inr s
           | None \<Rightarrow> Inr s))"

text \<open>The toolbar button's \<open>execute\<close>; the first argument is \<open>viewDocument.isFocused\<close>.\<close>

definition linkButtonListener :: "bool \<Rightarrow> selection \<Rightarrow> state \<Rightarrow> error + state" where
  "linkButtonListener isFocused sel s =
     (if \<not> isFocused then Inr s
      else (case attachPanelToElement None sel s of
              Inl e \<Rightarrow> Inl e
            | Inr s' \<Rightarrow> Inr (selectUrlInput s')))"

text \<open>The CTRL+L keystroke.\<close>

definition keystrokeListener :: "selection \<Rightarrow> state \<Rightarrow> error + state" where
  "keystrokeListener sel s =
     (case attachPanelToElement None sel s of
        Inl e \<Rightarrow> Inl e
      | Inr s' \<Rightarrow> Inr (selectUrlInput s'))"

text \<open>
  The panel model's \<open>executeLink\<close>, \<open>executeUnlink\<close> and \<open>executeCancel\<close>; the first
  argument of \<open>executeLinkListener\<close> is \<open>balloonPanel.urlInput.value\<close>.
\<close>

definition executeLinkListener :: "string \<Rightarrow> outcome \<Rightarrow> state \<Rightarrow> error + state" where
  "executeLinkListener urlInputValue out s =
     (case execute (LinkCommand urlInputValue) out s of
        Inl e \<Rightarrow> Inl e
      | Inr s' \<Rightarrow> Inr (hidePanel True s'))"

definition executeUnlinkListener :: "outcome \<Rightarrow> state \<Rightarrow> error + state" where
  "executeUnlinkListener out s =
     (case execute UnlinkCommand out s of
        Inl e \<Rightarrow> Inl e
      | Inr s' \<Rightarrow> Inr (hidePanel True s'))"

definition executeCancelListener :: "state \<Rightarrow> state" where
  "executeCancelListener s = hidePanel True s"

text \<open>The toolbar's unlink button only executes the command.\<close>

definition unlinkButtonListener :: "outcome \<Rightarrow> state \<Rightarrow> error + state" where
  "unlinkButtonListener out s = execute UnlinkCommand out s"

subsection \<open>Firing events\<close>

text \<open>
  Modelled from the spec: the emitter (utils/emittermixin.js) is missing. Handlers run
  "to completion ... before the next is dispatched", in the order they were added, and a
  callback that was removed while the event is being fired is not called. The callbacks
  of one DOM event are copies of one function, so their number is all that matters; the
  first argument bounds the iteration by the number of callbacks at the start.
\<close>

fun fireKeydown :: "nat \<Rightarrow> nat \<Rightarrow> state \<Rightarrow> state" where
  "fireKeydown 0 keyCode s = s"
| "fireKeydown (Suc n) keyCode s =
     (let s' = closePanelOnClick keyCode s
      in if keydownListeners s' = 0 then s' else fireKeydown n keyCode s')"

fun fireMouseup :: "nat \<Rightarrow> bool \<Rightarrow> bool \<Rightarrow> state \<Rightarrow> state" where
  "fireMouseup 0 inPanel inEditor s = s"
| "fireMouseup (Suc n) inPanel inEditor s =
     (let s' = mouseupListener inPanel inEditor s
      in if mouseupListeners s' = 0 then s' else fireMouseup n inPanel inEditor s')"

fun fireRender :: "vnode list \<Rightarrow> selection \<Rightarrow> state \<Rightarrow> error + state" where
  "fireRender [] sel s = Inr s"
| "fireRender (l # ls) sel s =
     (case renderListener l sel s of
        Inl e \<Rightarrow> Inl e
      | Inr s' \<Rightarrow> if renderListeners s' = [] then Inr s' else fireRender ls sel s')"

text \<open>
  What can happen to the feature. Each event carries what its handler reads from the
  outside at that moment: the live selection, the focus of the view document, the value
  of the URL input, the outcome of the command, the key code, where the mouse target
  lies.
\<close>

datatype event =
    LinkButton bool selection
  | UnlinkButton outcome
  | Keystroke selection
  | Click selection
  | Render selection
  | ExecuteLink string outcome
  | ExecuteUnlink outcome
  | ExecuteCancel
  | Keydown nat
  | Mouseup bool bool

fun step :: "event \<Rightarrow> state \<Rightarrow> error + state" where
  "step (LinkButton isFocused sel) s = linkButtonListener isFocused sel s"
| "step (UnlinkButton out) s = unlinkButtonListener out s"
| "step (Keystroke sel) s = keystrokeListener sel s"
| "step (Click sel) s = clickListener sel s"
| "step (Render sel) s = fireRender (renderListeners s) sel s"
| "step (ExecuteLink url out) s = executeLinkListener url out s"
| "step (ExecuteUnlink out) s = executeUnlinkListener out s"
| "step (ExecuteCancel) s = Inr (executeCancelListener s)"
| "step (Keydown keyCode) s = Inr (fireKeydown (keydownListeners s) keyCode s)"
| "step (Mouseup inPanel inEditor) s = Inr (fireMouseup (mouseupListeners s) inPanel inEditor s)"

text \<open>
  The state after an event. A handler that throws does so before it has changed
  anything (the locator and the command are the first thing it calls), so the state an
  exception leaves behind is the state before the event.
\<close>

definition after :: "event \<Rightarrow> state \<Rightarrow> state" where
  "after e s = (case step e s of Inl err \<Rightarrow> s | Inr s' \<Rightarrow> s')"

fun run :: "event list \<Rightarrow> state \<Rightarrow> state" where
  "run [] s = s"
| "run (e # es) s = run es (after e s)"

subsection \<open>Properties of states and inputs\<close>

text \<open>
  The balance of the close subscriptions: one keydown and one mouseup callback while
  the panel is visible, none while it is hidden; and a hidden panel has no render
  callback left.
\<close>

definition balanced :: "state \<Rightarrow> bool" where
  "balanced s =
     (keydownListeners s = (if isVisible s then 1 else 0) \<and>
      mouseupListeners s = (if isVisible s then 1 else 0) \<and>
      (isVisible s \<or> renderListeners s = []))"

text \<open>
  The selection is collapsed and the locator, at its first position, finds the very
  link element \<open>a\<close>.
\<close>

definition tracks :: "vnode \<Rightarrow> selection \<Rightarrow> bool" where
  "tracks a sel =
     (isCollapsed sel \<and>
      (case getFirstPosition sel of
         None \<Rightarrow> False
       | Some p \<Rightarrow>
           (case find instanceofLinkElement (getAncestors (parent p)) of
              None \<Rightarrow> False
            | Some l \<Rightarrow> nodeRef l = nodeRef a)))"


subsection \<open>A small document\<close>

text \<open>
  A root with one paragraph that holds a text, the link A around a bold element around
  a text, and the link B around a text:
  \<^verbatim>\<open><p>foo<a><b>bar</b></a><a>baz</a></p>\<close>
  \<open>linkAShifted\<close> is the element A itself (the same object) after a change of the
  document that moved it under the root.
\<close>

definition rootElement :: vnode where
  "rootElement = VNode 0 ContainerElement None"

definition paragraphElement :: vnode where
  "paragraphElement = VNode 1 ContainerElement (Some rootElement)"

definition plainText :: vnode where
  "plainText = VNode 2 TextNode (Some paragraphElement)"

definition linkA :: vnode where
  "linkA = VNode 3 LinkElement (Some paragraphElement)"

definition boldInA :: vnode where
  "boldInA = VNode 4 ContainerElement (Some linkA)"

definition textInA :: vnode where
  "textInA = VNode 5 TextNode (Some boldInA)"

definition linkB :: vnode where
  "linkB = VNode 6 LinkElement (Some paragraphElement)"

definition textInB :: vnode where
  "textInB = VNode 7 TextNode (Some linkB)"

definition caretInA :: selection where
  "caretInA = Selection [VRange (Position textInA 1) (Position textInA 1)]"

definition caretInB :: selection where
  "caretInB = Selection [VRange (Position textInB 2) (Position textInB 2)]"

definition caretInPlainText :: selection where
  "caretInPlainText = Selection [VRange (Position plainText 0) (Position plainText 0)]"

definition rangeInA :: selection where
  "rangeInA = Selection [VRange (Position textInA 0) (Position textInA 2)]"

definition noRanges :: selection where
  "noRanges = Selection []"

definition linkAShifted :: vnode where
  "linkAShifted = VNode 3 LinkElement (Some rootElement)"

definition caretInShiftedA :: selection where
  "caretInShiftedA =
     Selection [VRange (Position (VNode 5 TextNode (Some linkAShifted)) 2)
                       (Position (VNode 5 TextNode (Some linkAShifted)) 2)]"

section \<open>Verification\<close>

subsection \<open>The panel view\<close>

lemma isVisible_attachTo: "isVisible (attachTo t s)"
  by (simp add: attachTo_def setIsVisible_def onChangeIsVisible_def)

lemma attachTo_visible:
  "isVisible s \<Longrightarrow> attachTo t s = s\<lparr>attachedTo := Some t, calls := calls s @ [AttachTo t]\<rparr>"
  by (simp add: attachTo_def setIsVisible_def)

lemma hide_visible:
  "isVisible s \<Longrightarrow> hide s = s\<lparr>calls := calls s @ [Hide], isVisible := False,
     keydownListeners := 0, mouseupListeners := 0, renderListeners := []\<rparr>"
  by (simp add: hide_def setIsVisible_def onChangeIsVisible_def)

lemma isVisible_hide: "\<not> isVisible (hide s)"
  by (simp add: hide_def setIsVisible_def onChangeIsVisible_def)

lemma calls_hide: "calls (hide s) = calls s @ [Hide]"
  by (simp add: hide_def setIsVisible_def onChangeIsVisible_def)

lemma isVisible_hidePanel: "\<not> isVisible (hidePanel f s)"
  by (simp add: hidePanel_def Let_def isVisible_hide focus_def)

lemma calls_hidePanel: "calls (hidePanel f s) = calls s @ (if f then [Hide, Focus] else [Hide])"
  by (simp add: hidePanel_def Let_def calls_hide focus_def)


subsection \<open>The balance is kept by every handler\<close>

lemma balanced_initState: "balanced initState"
  by (simp add: balanced_def initState_def)

lemma balanced_attachTo: "balanced s \<Longrightarrow> balanced (attachTo t s)"
  by (simp add: balanced_def attachTo_def setIsVisible_def onChangeIsVisible_def)

lemma balanced_hide: "balanced s \<Longrightarrow> balanced (hide s)"
  by (auto simp: balanced_def hide_def setIsVisible_def onChangeIsVisible_def)

lemma balanced_focus: "balanced s \<Longrightarrow> balanced (focus s)"
  by (simp add: balanced_def focus_def)

lemma balanced_selectUrlInput: "balanced s \<Longrightarrow> balanced (selectUrlInput s)"
  by (simp add: balanced_def selectUrlInput_def)

lemma balanced_hidePanel: "balanced s \<Longrightarrow> balanced (hidePanel f s)"
  by (simp add: hidePanel_def Let_def balanced_hide balanced_focus)

lemma balanced_execute: "balanced s \<Longrightarrow> execute c out s = Inr s' \<Longrightarrow> balanced s'"
  by (auto simp: execute_def balanced_def split: outcome.splits)

lemma balanced_attachPanelToElement:
  "balanced s \<Longrightarrow> attachPanelToElement pl sel s = Inr s' \<Longrightarrow> balanced s'"
  by (auto simp: attachPanelToElement_def balanced_attachTo split: option.splits sum.splits)

lemma isVisible_attachPanelToElement:
  "attachPanelToElement pl sel s = Inr s' \<Longrightarrow> isVisible s'"
  by (auto simp: attachPanelToElement_def isVisible_attachTo split: option.splits sum.splits)

lemma balanced_closePanelOnClick: "balanced s \<Longrightarrow> balanced (closePanelOnClick k s)"
  by (simp add: closePanelOnClick_def balanced_hidePanel)

lemma balanced_mouseupListener: "balanced s \<Longrightarrow> balanced (mouseupListener a b s)"
  by (simp add: mouseupListener_def Let_def balanced_hide balanced_focus)

lemma balanced_fireKeydown: "balanced s \<Longrightarrow> balanced (fireKeydown n k s)"
  by (induction n arbitrary: s) (simp_all add: Let_def balanced_closePanelOnClick)

lemma balanced_fireMouseup: "balanced s \<Longrightarrow> balanced (fireMouseup n a b s)"
  by (induction n arbitrary: s) (simp_all add: Let_def balanced_mouseupListener)

lemma balanced_renderListener:
  "balanced s \<Longrightarrow> renderListener l sel s = Inr s' \<Longrightarrow> balanced s'"
  by (auto simp: renderListener_def balanced_hidePanel
      dest: balanced_attachPanelToElement split: option.splits sum.splits if_splits)

lemma balanced_fireRender:
  "balanced s \<Longrightarrow> fireRender ls sel s = Inr s' \<Longrightarrow> balanced s'"
proof (induction ls arbitrary: s)
  case Nil
  then show ?case by simp
next
  case (Cons l ls)
  then show ?case
    by (auto split: sum.splits if_splits dest: balanced_renderListener)
qed

lemma balanced_clickListener:
  assumes b: "balanced s" and c: "clickListener sel s = Inr s'"
  shows "balanced s'"
proof (cases "s' = s")
  case True
  with b show ?thesis by simp
next
  case False
  with c obtain s1 l where a: "attachPanelToElement None sel s = Inr s1"
    and s': "s' = s1\<lparr>renderListeners := renderListeners s1 @ [l]\<rparr>"
    by (auto simp: clickListener_def split: sum.splits option.splits if_splits)
  from b a have "balanced s1" by (rule balanced_attachPanelToElement)
  moreover from a have "isVisible s1" by (rule isVisible_attachPanelToElement)
  ultimately show ?thesis by (simp add: s' balanced_def)
qed

lemma balanced_step:
  assumes b: "balanced s" and st: "step e s = Inr s'"
  shows "balanced s'"
proof (cases e)
  case (LinkButton f sel)
  with b st show ?thesis
    by (auto simp: linkButtonListener_def balanced_selectUrlInput
        split: if_splits sum.splits dest: balanced_attachPanelToElement)
next
  case (UnlinkButton out)
  with b st show ?thesis
    by (auto simp: unlinkButtonListener_def dest: balanced_execute)
next
  case (Keystroke sel)
  with b st show ?thesis
    by (auto simp: keystrokeListener_def balanced_selectUrlInput
        split: sum.splits dest: balanced_attachPanelToElement)
next
  case (Click sel)
  with b st show ?thesis by (auto dest: balanced_clickListener)
next
  case (Render sel)
  with b st show ?thesis by (auto dest: balanced_fireRender)
next
  case (ExecuteLink url out)
  with b st show ?thesis
    by (auto simp: executeLinkListener_def balanced_hidePanel
        split: sum.splits dest: balanced_execute)
next
  case (ExecuteUnlink out)
  with b st show ?thesis
    by (auto simp: executeUnlinkListener_def balanced_hidePanel
        split: sum.splits dest: balanced_execute)
next
  case ExecuteCancel
  with b st show ?thesis
    by (auto simp: executeCancelListener_def balanced_hidePanel)
next
  case (Keydown k)
  with b st show ?thesis by (auto simp: balanced_fireKeydown)
next
  case (Mouseup a b)
  with assms show ?thesis by (auto simp: balanced_fireMouseup)
qed

lemma balanced_after: "balanced s \<Longrightarrow> balanced (after e s)"
  by (auto simp: after_def split: sum.splits dest: balanced_step)

lemma balanced_run: "balanced s \<Longrightarrow> balanced (run es s)"
  by (induction es arbitrary: s) (simp_all add: balanced_after)

lemma balanced_reachable: "balanced (run es initState)"
  by (rule balanced_run [OF balanced_initState])

subsection \<open>Subscription balance\<close>

text \<open>
  C1. In every state reached from the initial one by any sequence of events, a hidden
  panel has no keydown (escape) and no mouseup (outside click) subscription, and a
  shown panel has exactly one of each, two in all.
\<close>

theorem subscription_balance:
  "(\<not> isVisible (run es initState) \<longrightarrow>
      keydownListeners (run es initState) = 0 \<and> mouseupListeners (run es initState) = 0) \<and>
   (isVisible (run es initState) \<longrightarrow>
      keydownListeners (run es initState) = 1 \<and> mouseupListeners (run es initState) = 1 \<and>
      keydownListeners (run es initState) + mouseupListeners (run es initState) = 2)"
  using balanced_reachable [of es] by (simp add: balanced_def)

theorem subscription_balance_witness:
  "isVisible (run [Click caretInA, Click caretInA, Keystroke rangeInA] initState) \<and>
   keydownListeners (run [Click caretInA, Click caretInA, Keystroke rangeInA] initState) = 1 \<and>
   mouseupListeners (run [Click caretInA, Click caretInA, Keystroke rangeInA] initState) = 1 \<and>
   \<not> isVisible (run [Click caretInA, Keydown 27] initState) \<and>
   keydownListeners (run [Click caretInA, Keydown 27] initState) = 0 \<and>
   mouseupListeners (run [Click caretInA, Keydown 27] initState) = 0"
proof -
  have shown: "isVisible (run [Click caretInA, Click caretInA, Keystroke rangeInA] initState)"
    by code_simp
  have hidden: "\<not> isVisible (run [Click caretInA, Keydown 27] initState)"
    by code_simp
  from shown hidden
    subscription_balance [of "[Click caretInA, Click caretInA, Keystroke rangeInA]"]
    subscription_balance [of "[Click caretInA, Keydown 27]"]
  show ?thesis by simp
qed

subsection \<open>The locator\<close>

text \<open>
  C4, as amended. The locator is total on positions, not on null: it returns a result
  (the link element or none) exactly when the position it is given is not null; on null
  it throws.
\<close>

theorem locator_returns_iff_position:
  "(\<exists>r. getPositionParentLink position = Inr r) = (position \<noteq> None)"
  by (cases position) (simp_all add: getPositionParentLink_def)

theorem locator_returns_iff_position_witness:
  "getPositionParentLink (Some (Position textInA 1)) = Inr (Some linkA) \<and>
   (\<exists>r. getPositionParentLink (Some (Position plainText 0)) = Inr r)"
proof -
  have "getPositionParentLink (Some (Position textInA 1)) = Inr (Some linkA)"
    by code_simp
  moreover have "Some (Position plainText 0) \<noteq> None" by simp
  ultimately show ?thesis
    using locator_returns_iff_position [of "Some (Position plainText 0)"] by simp
qed

text \<open>
  C4 as stated fails: on the null position the locator does not return none, it throws
  a TypeError.
\<close>

theorem locator_null_counterexample:
  "getPositionParentLink None = Inl TypeError \<and> getPositionParentLink None \<noteq> Inr None"
  by (simp add: getPositionParentLink_def)

text \<open>
  C5. When exactly one node of the ancestor chain of the position's parent is a link
  element, at whatever depth \<open>d\<close>, the locator returns that node; when none is, it
  returns none. The locator is a function of the position alone: it neither reads nor
  changes the state.
\<close>

theorem locator_correctness:
  "(d < length (getAncestors (parent p)) \<and>
    instanceofLinkElement (getAncestors (parent p) ! d) \<and>
    (\<forall>i < length (getAncestors (parent p)). i \<noteq> d \<longrightarrow>
        \<not> instanceofLinkElement (getAncestors (parent p) ! i))
    \<longrightarrow> getPositionParentLink (Some p) = Inr (Some (getAncestors (parent p) ! d))) \<and>
   ((\<forall>a \<in> set (getAncestors (parent p)). \<not> instanceofLinkElement a)
    \<longrightarrow> getPositionParentLink (Some p) = Inr None)"
proof (intro conjI impI)
  let ?anc = "getAncestors (parent p)"
  assume h: "d < length ?anc \<and> instanceofLinkElement (?anc ! d) \<and>
    (\<forall>i < length ?anc. i \<noteq> d \<longrightarrow> \<not> instanceofLinkElement (?anc ! i))"
  then have "\<forall>j<d. \<not> instanceofLinkElement (?anc ! j)" by auto
  with h have "find instanceofLinkElement ?anc = Some (?anc ! d)"
    unfolding find_Some_iff by blast
  then show "getPositionParentLink (Some p) = Inr (Some (?anc ! d))"
    by (simp add: getPositionParentLink_def)
next
  assume "\<forall>a \<in> set (getAncestors (parent p)). \<not> instanceofLinkElement a"
  then have "find instanceofLinkElement (getAncestors (parent p)) = None"
    by (simp add: find_None_iff)
  then show "getPositionParentLink (Some p) = Inr None"
    by (simp add: getPositionParentLink_def)
qed

theorem locator_correctness_witness:
  "getAncestors (parent (Position textInA 1)) ! 1 = linkA \<and>
   getPositionParentLink (Some (Position textInA 1)) = Inr (Some linkA) \<and>
   getAncestors (parent (Position textInB 2)) ! 0 = linkB \<and>
   getPositionParentLink (Some (Position textInB 2)) = Inr (Some linkB) \<and>
   getPositionParentLink (Some (Position plainText 0)) = Inr None"
proof -
  have a: "getAncestors textInA = [boldInA, linkA, paragraphElement, rootElement]"
    by (simp add: textInA_def boldInA_def linkA_def paragraphElement_def rootElement_def)
  have b: "getAncestors textInB = [linkB, paragraphElement, rootElement]"
    by (simp add: textInB_def linkB_def paragraphElement_def rootElement_def)
  have c: "getAncestors plainText = [paragraphElement, rootElement]"
    by (simp add: plainText_def paragraphElement_def rootElement_def)
  have k: "instanceofLinkElement linkA \<and> instanceofLinkElement linkB \<and>
    \<not> instanceofLinkElement boldInA \<and> \<not> instanceofLinkElement paragraphElement \<and>
    \<not> instanceofLinkElement rootElement"
    by (simp add: instanceofLinkElement_def linkA_def linkB_def boldInA_def
        paragraphElement_def rootElement_def)
  have ha: "1 < length (getAncestors (parent (Position textInA 1))) \<and>
    instanceofLinkElement (getAncestors (parent (Position textInA 1)) ! 1) \<and>
    (\<forall>i < length (getAncestors (parent (Position textInA 1))). i \<noteq> 1 \<longrightarrow>
        \<not> instanceofLinkElement (getAncestors (parent (Position textInA 1)) ! i))"
    using k by (auto simp: a nth_Cons' less_Suc_eq)
  have hb: "0 < length (getAncestors (parent (Position textInB 2))) \<and>
    instanceofLinkElement (getAncestors (parent (Position textInB 2)) ! 0) \<and>
    (\<forall>i < length (getAncestors (parent (Position textInB 2))). i \<noteq> 0 \<longrightarrow>
        \<not> instanceofLinkElement (getAncestors (parent (Position textInB 2)) ! i))"
    using k by (auto simp: b nth_Cons' less_Suc_eq)
  have hc: "\<forall>x \<in> set (getAncestors (parent (Position plainText 0))).
    \<not> instanceofLinkElement x"
    using k by (simp add: c)
  from locator_correctness [of 1 "Position textInA 1"] ha
  have "getPositionParentLink (Some (Position textInA 1))
          = Inr (Some (getAncestors (parent (Position textInA 1)) ! 1))"
    by blast
  moreover from locator_correctness [of 0 "Position textInB 2"] hb
  have "getPositionParentLink (Some (Position textInB 2))
          = Inr (Some (getAncestors (parent (Position textInB 2)) ! 0))"
    by blast
  moreover from locator_correctness [of 0 "Position plainText 0"] hc
  have "getPositionParentLink (Some (Position plainText 0)) = Inr None"
    by blast
  ultimately show ?thesis by (simp add: a b)
qed

subsection \<open>Attaching the panel\<close>

text \<open>
  C6, as amended. An attach request with an explicit link element anchors the panel to
  that element; without one, it anchors the panel to the link element the locator finds
  at the selection's first position, and when the locator finds none, to the selection's
  first range. In each case the panel is visible afterwards and \<open>attachedTo\<close> is that
  target. A request with neither an explicit link element nor a selection range is not
  silent, it throws a TypeError; but it leaves the state of the panel and its position
  unchanged, through the keystroke, the toolbar button and the click alike.
\<close>

theorem attach_anchoring:
  "attachPanelToElement (Some l) sel s = Inr (attachTo (DomElement l) s) \<and>
   (getPositionParentLink (getFirstPosition sel) = Inr (Some l) \<longrightarrow>
      attachPanelToElement None sel s = Inr (attachTo (DomElement l) s)) \<and>
   (getPositionParentLink (getFirstPosition sel) = Inr None \<longrightarrow>
      (\<exists>r. getFirstRange sel = Some r \<and>
           attachPanelToElement None sel s = Inr (attachTo (DomRange r) s))) \<and>
   isVisible (attachTo t s) \<and> attachedTo (attachTo t s) = Some t \<and>
   (getFirstRange sel = None \<longrightarrow>
      attachPanelToElement None sel s = Inl TypeError \<and>
      after (Keystroke sel) s = s \<and> after (LinkButton isFocused sel) s = s \<and>
      after (Click sel) s = s)"
  by (auto simp: attachPanelToElement_def getPositionParentLink_def getFirstPosition_def
      attachTo_def setIsVisible_def onChangeIsVisible_def after_def keystrokeListener_def
      linkButtonListener_def clickListener_def
      split: option.splits)

theorem attach_anchoring_witness:
  "getPositionParentLink (getFirstPosition caretInA) = Inr (Some linkA) \<and>
   attachPanelToElement None caretInA initState = Inr (attachTo (DomElement linkA) initState) \<and>
   attachPanelToElement (Some linkB) caretInA initState = Inr (attachTo (DomElement linkB) initState) \<and>
   getPositionParentLink (getFirstPosition caretInPlainText) = Inr None \<and>
   (\<exists>r. getFirstRange caretInPlainText = Some r \<and>
        attachPanelToElement None caretInPlainText initState = Inr (attachTo (DomRange r) initState)) \<and>
   getFirstRange noRanges = None \<and>
   attachPanelToElement None noRanges (run [Click caretInA] initState) = Inl TypeError \<and>
   after (Keystroke noRanges) (run [Click caretInA] initState) = run [Click caretInA] initState \<and>
   after (LinkButton True noRanges) (run [Click caretInA] initState) = run [Click caretInA] initState \<and>
   after (Click noRanges) (run [Click caretInA] initState) = run [Click caretInA] initState"
proof -
  have a: "getPositionParentLink (getFirstPosition caretInA) = Inr (Some linkA)" by code_simp
  have n: "getPositionParentLink (getFirstPosition caretInPlainText) = Inr None" by code_simp
  have e: "getFirstRange noRanges = None" by code_simp
  from a n e attach_anchoring [of linkA caretInA initState]
    attach_anchoring [of linkB caretInA initState]
    attach_anchoring [of linkA caretInPlainText initState]
    attach_anchoring [of linkA noRanges "run [Click caretInA] initState" _ True]
  show ?thesis by blast
qed

text \<open>
  C6 as stated fails in one word: with no explicit link element and a selection that
  has no range, the request is not silent. It does not return; the locator throws.
\<close>

theorem attach_no_target_counterexample:
  "getFirstRange noRanges = None \<and>
   attachPanelToElement None noRanges initState = Inl TypeError \<and>
   attachPanelToElement None noRanges initState \<noteq> Inr initState"
  by code_simp

subsection \<open>Events while the panel is shown\<close>



subsection \<open>Tracking the link on render\<close>

lemma renderListener_no_position:
  "getFirstPosition sel = None \<Longrightarrow> renderListener l sel s = Inr s"
  by (simp add: renderListener_def)

lemma fireRender_no_position:
  "getFirstPosition sel = None \<Longrightarrow> fireRender ls sel s = Inr s"
  by (induction ls) (simp_all add: renderListener_no_position)

lemma renderListener_tracks:
  "tracks a sel \<Longrightarrow> isVisible s \<Longrightarrow>
   renderListener a sel s = Inr (s\<lparr>attachedTo := Some (DomElement a),
     calls := calls s @ [AttachTo (DomElement a)]\<rparr>)"
  by (auto simp: tracks_def renderListener_def getPositionParentLink_def notSameObject_def
      attachPanelToElement_def attachTo_visible split: option.splits)

lemma renderListener_leaves:
  "getFirstPosition sel \<noteq> None \<Longrightarrow> \<not> tracks a sel \<Longrightarrow>
   renderListener a sel s = Inr (hidePanel False s)"
  by (auto simp: tracks_def renderListener_def getPositionParentLink_def notSameObject_def
      split: option.splits)

lemma render_tracks:
  "tracks a sel \<Longrightarrow> isVisible s \<Longrightarrow> renderListeners s = [a] \<Longrightarrow>
   step (Render sel) s = Inr (s\<lparr>attachedTo := Some (DomElement a),
     calls := calls s @ [AttachTo (DomElement a)]\<rparr>)"
  by (simp add: renderListener_tracks)

lemma render_leaves:
  "getFirstPosition sel \<noteq> None \<Longrightarrow> \<not> tracks a sel \<Longrightarrow> renderListeners s = [a] \<Longrightarrow>
   step (Render sel) s = Inr (hidePanel False s)"
  by (simp add: renderListener_leaves)

lemma run_renders_tracks:
  "\<forall>sel \<in> set sels. tracks a sel \<Longrightarrow> isVisible s \<Longrightarrow> renderListeners s = [a] \<Longrightarrow>
   attachedTo s = Some (DomElement a) \<Longrightarrow>
   isVisible (run (map Render sels) s) \<and> renderListeners (run (map Render sels) s) = [a] \<and>
   attachedTo (run (map Render sels) s) = Some (DomElement a)"
proof (induction sels arbitrary: s)
  case Nil
  then show ?case by simp
next
  case (Cons sel sels)
  let ?s1 = "s\<lparr>attachedTo := Some (DomElement a), calls := calls s @ [AttachTo (DomElement a)]\<rparr>"
  from Cons.prems have "step (Render sel) s = Inr ?s1"
    by (simp add: render_tracks del: step.simps)
  then have a: "after (Render sel) s = ?s1" by (simp add: after_def)
  from Cons.prems have "isVisible (run (map Render sels) ?s1) \<and>
    renderListeners (run (map Render sels) ?s1) = [a] \<and>
    attachedTo (run (map Render sels) ?s1) = Some (DomElement a)"
    by (intro Cons.IH) simp_all
  with a show ?case by simp
qed

lemma click_from_hidden:
  assumes b: "balanced s" and h: "\<not> isVisible s" and c: "isCollapsed sel"
    and l: "getPositionParentLink (getFirstPosition sel) = Inr (Some a)"
  shows "isVisible (after (Click sel) s) \<and> renderListeners (after (Click sel) s) = [a] \<and>
    attachedTo (after (Click sel) s) = Some (DomElement a)"
proof -
  from b h have r: "renderListeners s = []" by (simp add: balanced_def)
  from l have "attachPanelToElement None sel s = Inr (attachTo (DomElement a) s)"
    by (simp add: attachPanelToElement_def)
  with c l have "clickListener sel s =
    Inr ((attachTo (DomElement a) s)\<lparr>renderListeners := renderListeners (attachTo (DomElement a) s) @ [a]\<rparr>)"
    by (simp add: clickListener_def)
  then show ?thesis using h r
    by (simp add: after_def attachTo_def setIsVisible_def onChangeIsVisible_def)
qed

text \<open>
  C3, as amended. The panel is hidden; a click with a collapsed selection inside the
  link element \<open>a\<close> shows it. After any number of render notifications whose selection
  is collapsed and resolves to the same element \<open>a\<close>, the panel is still shown and
  attached to \<open>a\<close>; one more such notification attaches it to \<open>a\<close> again and changes
  nothing else; a notification whose selection has a first position and is not
  collapsed, or resolves to another link element or to none, hides the panel. (A
  notification whose selection has no first position is not among these.)
\<close>

theorem tracking_fidelity:
  assumes hidden: "\<not> isVisible (run es initState)"
    and collapsed: "isCollapsed sel0"
    and inside: "getPositionParentLink (getFirstPosition sel0) = Inr (Some a)"
    and stay: "\<forall>sel \<in> set sels. tracks a sel"
  shows "isVisible (after (Click sel0) (run es initState)) \<and>
     (let s = run (map Render sels) (after (Click sel0) (run es initState)) in
        isVisible s \<and> attachedTo s = Some (DomElement a) \<and>
        (\<forall>sel. tracks a sel \<longrightarrow>
           step (Render sel) s = Inr (s\<lparr>attachedTo := Some (DomElement a),
             calls := calls s @ [AttachTo (DomElement a)]\<rparr>)) \<and>
        (\<forall>sel. getFirstPosition sel \<noteq> None \<and> \<not> tracks a sel \<longrightarrow>
           (\<exists>s'. step (Render sel) s = Inr s' \<and> \<not> isVisible s' \<and>
              calls s' = calls s @ [Hide])))"
proof -
  let ?s1 = "after (Click sel0) (run es initState)"
  let ?s = "run (map Render sels) ?s1"
  from click_from_hidden [OF balanced_reachable hidden collapsed inside]
  have s1: "isVisible ?s1 \<and> renderListeners ?s1 = [a] \<and> attachedTo ?s1 = Some (DomElement a)" .
  with stay have s: "isVisible ?s \<and> renderListeners ?s = [a] \<and> attachedTo ?s = Some (DomElement a)"
    by (intro run_renders_tracks) simp_all
  have t: "\<forall>sel. tracks a sel \<longrightarrow>
           step (Render sel) ?s = Inr (?s\<lparr>attachedTo := Some (DomElement a),
             calls := calls ?s @ [AttachTo (DomElement a)]\<rparr>)"
    using s by (simp add: render_tracks del: step.simps)
  have l: "\<forall>sel. getFirstPosition sel \<noteq> None \<and> \<not> tracks a sel \<longrightarrow>
           (\<exists>s'. step (Render sel) ?s = Inr s' \<and> \<not> isVisible s' \<and>
              calls s' = calls ?s @ [Hide])"
    using s by (auto simp: render_leaves isVisible_hidePanel calls_hidePanel simp del: step.simps)
  from s1 s t l show ?thesis by (simp add: Let_def del: step.simps)
qed

theorem tracking_fidelity_witness:
  "\<not> isVisible (run [] initState) \<and> isCollapsed caretInA \<and>
   getPositionParentLink (getFirstPosition caretInA) = Inr (Some linkA) \<and>
   tracks linkA caretInA \<and> tracks linkA caretInShiftedA \<and>
   isVisible (after (Click caretInA) (run [] initState)) \<and>
   isVisible (run (map Render [caretInA, caretInShiftedA]) (after (Click caretInA) (run [] initState))) \<and>
   attachedTo (run (map Render [caretInA, caretInShiftedA]) (after (Click caretInA) (run [] initState)))
     = Some (DomElement linkA) \<and>
   (\<exists>s'. step (Render caretInB)
            (run (map Render [caretInA, caretInShiftedA]) (after (Click caretInA) (run [] initState)))
          = Inr s' \<and> \<not> isVisible s') \<and>
   (\<exists>s'. step (Render rangeInA)
            (run (map Render [caretInA, caretInShiftedA]) (after (Click caretInA) (run [] initState)))
          = Inr s' \<and> \<not> isVisible s') \<and>
   (\<exists>s'. step (Render caretInPlainText)
            (run (map Render [caretInA, caretInShiftedA]) (after (Click caretInA) (run [] initState)))
          = Inr s' \<and> \<not> isVisible s')"
proof -
  have h: "\<not> isVisible (run [] initState)" by code_simp
  have c: "isCollapsed caretInA" by code_simp
  have i: "getPositionParentLink (getFirstPosition caretInA) = Inr (Some linkA)" by code_simp
  have t1: "tracks linkA caretInA" by code_simp
  have t2: "tracks linkA caretInShiftedA" by code_simp
  have st: "\<forall>sel \<in> set [caretInA, caretInShiftedA]. tracks linkA sel"
    using t1 t2 by simp
  have b: "getFirstPosition caretInB \<noteq> None \<and> \<not> tracks linkA caretInB" by code_simp
  have r: "getFirstPosition rangeInA \<noteq> None \<and> \<not> tracks linkA rangeInA" by code_simp
  have p: "getFirstPosition caretInPlainText \<noteq> None \<and> \<not> tracks linkA caretInPlainText"
    by code_simp
  from tracking_fidelity [OF h c i st] h c i t1 t2 b r p
  show ?thesis unfolding Let_def by blast
qed

text \<open>
  C3 as stated fails: the panel is shown by a click in the link A; a render notification
  arrives while the selection has no range, so it is not collapsed; the panel is not
  hidden.
\<close>

theorem tracking_fidelity_counterexample:
  "isVisible (run [Click caretInA] initState) \<and>
   renderListeners (run [Click caretInA] initState) = [linkA] \<and>
   \<not> isCollapsed noRanges \<and>
   getFirstPosition noRanges = None \<and>
   isVisible (run [Click caretInA, Render noRanges] initState)"
  by code_simp

text \<open>
  C10. A render notification whose selection has no first position changes nothing,
  whatever the state, so also while the panel is shown by a click: the state after it is
  the state before it, with the same visibility, target, callbacks and calls.
\<close>

theorem render_without_position_is_ignored:
  "getFirstPosition sel = None \<Longrightarrow> step (Render sel) s = Inr s"
  by (simp add: fireRender_no_position)

theorem render_without_position_is_ignored_witness:
  "isVisible (run [Click caretInA] initState) \<and>
   renderListeners (run [Click caretInA] initState) = [linkA] \<and>
   getFirstPosition noRanges = None \<and>
   step (Render noRanges) (run [Click caretInA] initState) = Inr (run [Click caretInA] initState)"
proof -
  have p: "getFirstPosition noRanges = None"
    by (simp add: getFirstPosition_def getFirstRange_def noRanges_def)
  have v: "isVisible (run [Click caretInA] initState) \<and>
   renderListeners (run [Click caretInA] initState) = [linkA]"
    by code_simp
  from v p render_without_position_is_ignored [OF p, of "run [Click caretInA] initState"]
  show ?thesis by simp
qed

subsection \<open>The actions of the panel\<close>



text \<open>
  C8, as amended. Whenever the command returns, whether it applied the change or not,
  the submit and the remove-link handlers hide the panel and focus the editing view;
  they do the same as when the command applied the change, so its result is never
  looked at.
\<close>

theorem hide_after_returning_mutation:
  "(\<exists>s'. step (ExecuteLink url (Returned applied)) s = Inr s' \<and> \<not> isVisible s' \<and>
         calls s' = calls s @ [Execute (LinkCommand url), Hide, Focus]) \<and>
   (\<exists>s'. step (ExecuteUnlink (Returned applied)) s = Inr s' \<and> \<not> isVisible s' \<and>
         calls s' = calls s @ [Execute UnlinkCommand, Hide, Focus]) \<and>
   step (ExecuteLink url (Returned applied)) s = step (ExecuteLink url (Returned True)) s \<and>
   step (ExecuteUnlink (Returned applied)) s = step (ExecuteUnlink (Returned True)) s"
  by (simp add: executeLinkListener_def executeUnlinkListener_def execute_def
        isVisible_hidePanel calls_hidePanel)

theorem hide_after_returning_mutation_witness:
  "(\<exists>s'. step (ExecuteLink ''u'' (Returned False)) (run [Keystroke rangeInA] initState) = Inr s' \<and>
      \<not> isVisible s' \<and>
      calls s' = calls (run [Keystroke rangeInA] initState) @ [Execute (LinkCommand ''u''), Hide, Focus]) \<and>
   (\<exists>s'. step (ExecuteUnlink (Returned False)) (run [Keystroke rangeInA] initState) = Inr s' \<and>
      \<not> isVisible s' \<and>
      calls s' = calls (run [Keystroke rangeInA] initState) @ [Execute UnlinkCommand, Hide, Focus])"
  using hide_after_returning_mutation [of "''u''" False "run [Keystroke rangeInA] initState"]
  by blast

text \<open>
  C8 as stated fails: when the command throws, the handler is left at once; the panel
  stays shown, and neither \<open>hide\<close> nor \<open>focus\<close> is called.
\<close>

theorem mutation_failure_counterexample:
  "isVisible (run [Keystroke rangeInA] initState) \<and>
   step (ExecuteLink ''u'' Threw) (run [Keystroke rangeInA] initState) = Inl CommandError \<and>
   step (ExecuteUnlink Threw) (run [Keystroke rangeInA] initState) = Inl CommandError \<and>
   isVisible (run [Keystroke rangeInA, ExecuteLink ''u'' Threw] initState) \<and>
   isVisible (run [Keystroke rangeInA, ExecuteUnlink Threw] initState) \<and>
   Hide \<notin> set (calls (run [Keystroke rangeInA, ExecuteLink ''u'' Threw] initState)) \<and>
   Focus \<notin> set (calls (run [Keystroke rangeInA, ExecuteUnlink Threw] initState))"
  by code_simp

subsection \<open>Clicking outside the panel\<close>

lemma fireMouseup_inside: "fireMouseup n True inEditor s = s"
  by (induction n) (simp_all add: mouseupListener_def Let_def)

text \<open>
  C9. In every reachable state in which the panel is shown, a mouseup whose target lies
  inside the panel's element changes nothing; a mouseup whose target lies outside hides
  the panel, and the editing view is focused after that exactly when the target lies
  inside the element of the editor's UI.
\<close>

theorem outside_click:
  assumes v: "isVisible (run es initState)"
  shows "step (Mouseup True inEditor) (run es initState) = Inr (run es initState) \<and>
   (\<exists>s'. step (Mouseup False inEditor) (run es initState) = Inr s' \<and> \<not> isVisible s' \<and>
      calls s' = calls (run es initState) @ (if inEditor then [Hide, Focus] else [Hide]))"
proof -
  let ?s = "run es initState"
  from v balanced_reachable [of es] have m: "mouseupListeners ?s = Suc 0"
    by (simp add: balanced_def)
  have a: "step (Mouseup True inEditor) ?s = Inr ?s"
    by (simp add: fireMouseup_inside)
  have l: "mouseupListeners (mouseupListener False inEditor ?s) = 0"
    using v by (simp add: mouseupListener_def Let_def hide_visible focus_def)
  have b: "step (Mouseup False inEditor) ?s = Inr (mouseupListener False inEditor ?s)"
    using m l by (simp add: Let_def)
  have c: "\<not> isVisible (mouseupListener False inEditor ?s)"
    by (simp add: mouseupListener_def Let_def isVisible_hide focus_def)
  have d: "calls (mouseupListener False inEditor ?s) =
    calls ?s @ (if inEditor then [Hide, Focus] else [Hide])"
    by (simp add: mouseupListener_def Let_def calls_hide focus_def)
  from a b c d show ?thesis by simp
qed

theorem outside_click_witness:
  "isVisible (run [Click caretInA] initState) \<and>
   step (Mouseup True False) (run [Click caretInA] initState) = Inr (run [Click caretInA] initState) \<and>
   (\<exists>s'. step (Mouseup False True) (run [Click caretInA] initState) = Inr s' \<and> \<not> isVisible s' \<and>
      calls s' = calls (run [Click caretInA] initState) @ [Hide, Focus]) \<and>
   (\<exists>s'. step (Mouseup False False) (run [Click caretInA] initState) = Inr s' \<and> \<not> isVisible s' \<and>
      calls s' = calls (run [Click caretInA] initState) @ [Hide])"
proof -
  have v: "isVisible (run [Click caretInA] initState)" by code_simp
  from v outside_click [OF v, of False] outside_click [OF v, of True]
  show ?thesis by simp
qed

subsection \<open>Showing the panel again\<close>






end
